theory Spec2Isabelle
  imports Main "HOL-Library.Word" "HOL-Library.Signed_Division"
begin

section \<open>Go values\<close>

text \<open>
  A \<^verbatim>\<open>[]byte\<close> is a list of 8-bit words. The nil slice and the empty slice are both
  the empty list: \<^verbatim>\<open>len\<close> and \<^verbatim>\<open>bytes.Equal\<close>, the only operations the code applies
  to them, do not tell them apart. \<^verbatim>\<open>int64\<close> is a 64-bit word, and so is \<^verbatim>\<open>int\<close>
  (the 64-bit platforms); \<^verbatim>\<open>byte\<close> is an 8-bit word.
\<close>

type_synonym byte = "8 word"
type_synonym bytes = "byte list"
type_synonym int64 = "64 word"
type_synonym go_int = "64 word"

text \<open>
  The two run-time panics of the code: reading through a nil pointer, and a
  single-value type assertion \<^verbatim>\<open>ev.(T)\<close> on a value whose dynamic type is not \<^verbatim>\<open>T\<close>.
\<close>

datatype panic = NilDereference | TypeAssertion

section \<open>Data model\<close>

text \<open>
  \<^verbatim>\<open>crypto.PubKey\<close> is an interface of another package. A value of it is modelled by
  the results of the two methods the code calls: \<^verbatim>\<open>Address()\<close> and
  \<^verbatim>\<open>VerifyBytes(msg, sig)\<close>. A nil key is not a value of this type.
\<close>

record PubKey =
  Address :: bytes
  VerifyBytes :: "bytes \<Rightarrow> bytes \<Rightarrow> bool"

text \<open>
  \<^verbatim>\<open>Proposal\<close> and \<^verbatim>\<open>Heartbeat\<close> are declared outside the files at hand; the code
  touches their \<^verbatim>\<open>Signature\<close> field only, and every other field is in the extension
  slot of the record.
\<close>

record Proposal =
  Signature :: bytes

record Heartbeat =
  Signature :: bytes

text \<open>
  \<^verbatim>\<open>Vote\<close> and \<^verbatim>\<open>SignVoteReply\<close> are declared outside the files at hand. The record
  has the fields that \<^verbatim>\<open>Verify\<close> reads; every other field of a vote lives in the
  record's extension slot (the type variable \<open>'m\<close>), and \<open>'b\<close> is the type of block
  identifiers.
\<close>

record 'b Vote =
  Height :: int64
  Round :: go_int
  Type :: byte
  ValidatorAddress :: bytes
  ValidatorIndex :: go_int
  BlockID :: 'b

record ('b, 'm) SignVoteReply =
  Vote :: "('b, 'm) Vote_scheme"
  Signature :: bytes

text \<open>
  \<^verbatim>\<open>VoteA\<close> and \<^verbatim>\<open>VoteB\<close> are pointers (\<^verbatim>\<open>*SignVoteReply\<close>): \<open>None\<close> is nil.
\<close>

record ('b, 'm) DuplicateVoteEvidence =
  PubKey :: PubKey
  VoteA :: "('b, 'm) SignVoteReply option"
  VoteB :: "('b, 'm) SignVoteReply option"

text \<open>
  The fields \<^verbatim>\<open>Height_\<close> and \<^verbatim>\<open>Address_\<close> of the source are \<open>Height'\<close> and
  \<open>Address'\<close> here (a name cannot end with an underscore).
\<close>

record MockGoodEvidence =
  Height' :: int64
  Address' :: bytes

text \<open>\<^verbatim>\<open>MockBadEvidence\<close> embeds a \<^verbatim>\<open>MockGoodEvidence\<close>.\<close>

record MockBadEvidence =
  MockGoodEvidence :: MockGoodEvidence

text \<open>
  The \<^verbatim>\<open>Evidence\<close> interface: a value is one of the three registered concrete types,
  \<^verbatim>\<open>*DuplicateVoteEvidence\<close>, \<^verbatim>\<open>MockGoodEvidence\<close> and \<^verbatim>\<open>MockBadEvidence\<close>. The
  discriminators say which dynamic type a value has. The nil interface value and a nil
  \<^verbatim>\<open>*DuplicateVoteEvidence\<close> are not values of this type.
\<close>

datatype ('b, 'm) Evidence =
    is_DuplicateVoteEvidence: Evidence_DuplicateVote "('b, 'm) DuplicateVoteEvidence"
  | is_MockGoodEvidence: Evidence_MockGood MockGoodEvidence
  | is_MockBadEvidence: Evidence_MockBad MockBadEvidence

subsection \<open>Errors\<close>

text \<open>
  An \<^verbatim>\<open>error\<close> value is what \<^verbatim>\<open>fmt.Errorf\<close> builds (kept as the format string and
  its arguments, unrendered), the wrapper \<^verbatim>\<open>*ErrEvidenceInvalid\<close> with its two
  fields, or an error of another package, known by its message.
  \<open>ArgErrVoteInvalidSignature\<close> stands for the package variable
  \<^verbatim>\<open>ErrVoteInvalidSignature\<close>.
\<close>

datatype ('b, 'm) fmt_arg =
    ArgVote "('b, 'm) SignVoteReply option"
  | ArgBytes bytes
  | ArgInt go_int
  | ArgBlockID 'b
  | ArgPubKey PubKey
  | ArgErrVoteInvalidSignature

datatype ('b, 'm) go_error =
    Errorf string "('b, 'm) fmt_arg list"
  | ErrEvidenceInvalid (Evidence: "('b, 'm) Evidence") (ErrorValue: "('b, 'm) go_error")
  | OtherError string

definition NewEvidenceInvalidErr ::
  "('b, 'm) Evidence \<Rightarrow> ('b, 'm) go_error \<Rightarrow> ('b, 'm) go_error" where
  "NewEvidenceInvalidErr ev err = ErrEvidenceInvalid ev err"

subsection \<open>Functions of other packages\<close>

text \<open>
  The code calls four functions that are defined elsewhere; they are parameters of the
  model: \<^verbatim>\<open>BlockID.Equals\<close>, \<^verbatim>\<open>Vote.SignBytes()\<close> (which takes no argument),
  \<^verbatim>\<open>aminoHasher(x).Hash()\<close> on a \<^verbatim>\<open>*DuplicateVoteEvidence\<close>, and
  \<^verbatim>\<open>merkle.SimpleHashFromTwoHashes\<close>.
\<close>

record ('b, 'm) externs =
  BlockID_Equals :: "'b \<Rightarrow> 'b \<Rightarrow> bool"
  Vote_SignBytes :: "('b, 'm) Vote_scheme \<Rightarrow> bytes"
  aminoHasher_Hash :: "('b, 'm) DuplicateVoteEvidence \<Rightarrow> bytes"
  SimpleHashFromTwoHashes :: "bytes \<Rightarrow> bytes \<Rightarrow> bytes"

section \<open>The size ceiling\<close>

text \<open>
  Go's \<^verbatim>\<open>/\<close> on \<^verbatim>\<open>int\<close> truncates towards zero (\<open>sdiv\<close> on the signed values) and
  the result is again a 64-bit \<^verbatim>\<open>int\<close>.
\<close>

definition MaxEvidenceBytesPerBlock :: "go_int \<Rightarrow> go_int" where
  "MaxEvidenceBytesPerBlock blockMaxBytes = word_of_int (sint blockMaxBytes sdiv 10)"

section \<open>DuplicateVoteEvidence\<close>

definition DuplicateVoteEvidence_Height ::
  "('b, 'm) DuplicateVoteEvidence \<Rightarrow> panic + int64" where
  "DuplicateVoteEvidence_Height dve =
     (case VoteA dve of
        None \<Rightarrow> Inl NilDereference
      | Some a \<Rightarrow> Inr (Height (Vote a)))"

definition DuplicateVoteEvidence_Address :: "('b, 'm) DuplicateVoteEvidence \<Rightarrow> bytes" where
  "DuplicateVoteEvidence_Address dve = Address (PubKey dve)"

definition DuplicateVoteEvidence_Hash ::
  "('b, 'm) externs \<Rightarrow> ('b, 'm) DuplicateVoteEvidence \<Rightarrow> bytes" where
  "DuplicateVoteEvidence_Hash ext dve = aminoHasher_Hash ext dve"

text \<open>
  \<^verbatim>\<open>Verify\<close>: the result is a panic (a nil vote is read by the first comparison), or
  the returned \<^verbatim>\<open>error\<close>, where \<open>None\<close> is the nil error. The parameter \<open>chainID\<close>
  is the one of the source, which does not use it.
\<close>

definition DuplicateVoteEvidence_Verify ::
  "('b, 'm) externs \<Rightarrow> string \<Rightarrow> PubKey \<Rightarrow> ('b, 'm) DuplicateVoteEvidence
   \<Rightarrow> panic + ('b, 'm) go_error option" where
  "DuplicateVoteEvidence_Verify ext chainID pubKey dve =
     (case VoteA dve of
        None \<Rightarrow> Inl NilDereference
      | Some a \<Rightarrow>
     (case VoteB dve of
        None \<Rightarrow> Inl NilDereference
      | Some b \<Rightarrow> Inr (
          if Height (Vote a) \<noteq> Height (Vote b) \<or>
             Round (Vote a) \<noteq> Round (Vote b) \<or>
             Type (Vote a) \<noteq> Type (Vote b)
          then Some (Errorf
            ''DuplicateVoteEvidence Error: H/R/S does not match. Got %v and %v''
            [ArgVote (VoteA dve), ArgVote (VoteB dve)])
          else if ValidatorAddress (Vote a) \<noteq> ValidatorAddress (Vote b)
          then Some (Errorf
            ''DuplicateVoteEvidence Error: Validator addresses do not match. Got %X and %X''
            [ArgBytes (ValidatorAddress (Vote a)), ArgBytes (ValidatorAddress (Vote b))])
          else if ValidatorIndex (Vote a) \<noteq> ValidatorIndex (Vote b)
          then Some (Errorf
            ''DuplicateVoteEvidence Error: Validator indices do not match. Got %d and %d''
            [ArgInt (ValidatorIndex (Vote a)), ArgInt (ValidatorIndex (Vote b))])
          else if BlockID_Equals ext (BlockID (Vote a)) (BlockID (Vote b))
          then Some (Errorf
            ''DuplicateVoteEvidence Error: BlockIDs are the same (%v) - not a real duplicate vote''
            [ArgBlockID (BlockID (Vote a))])
          else (let addr = ValidatorAddress (Vote a) in
          if Address pubKey \<noteq> addr
          then Some (Errorf
            ''DuplicateVoteEvidence FAILED SANITY CHECK - address (%X) doesn't match pubkey (%v - %X)''
            [ArgBytes addr, ArgPubKey pubKey, ArgBytes (Address pubKey)])
          else if \<not> VerifyBytes pubKey (Vote_SignBytes ext (Vote a)) (Signature a)
          then Some (Errorf
            ''DuplicateVoteEvidence Error verifying VoteA: %v'' [ArgErrVoteInvalidSignature])
          else if \<not> VerifyBytes pubKey (Vote_SignBytes ext (Vote b)) (Signature b)
          then Some (Errorf
            ''DuplicateVoteEvidence Error verifying VoteB: %v'' [ArgErrVoteInvalidSignature])
          else None))))"

definition DuplicateVoteEvidence_Equal ::
  "('b, 'm) externs \<Rightarrow> ('b, 'm) DuplicateVoteEvidence \<Rightarrow> ('b, 'm) Evidence \<Rightarrow> bool" where
  "DuplicateVoteEvidence_Equal ext dve ev =
     (case ev of
        Evidence_DuplicateVote ev' \<Rightarrow>
          (let dveHash = aminoHasher_Hash ext dve;
               evHash = aminoHasher_Hash ext ev'
           in dveHash = evHash)
      | _ \<Rightarrow> False)"

section \<open>Mock evidence\<close>

text \<open>
  \<^verbatim>\<open>fmt.Sprintf("%d-%x", e.Height_, e.Address_)\<close>: the signed decimal numeral of the
  height, a dash, and two lower-case hexadecimal digits for each byte of the address.
\<close>

definition ldigits :: string where
  "ldigits = ''0123456789abcdef''"

fun fmt_nat :: "nat \<Rightarrow> string" where
  "fmt_nat n = (if n < 10 then [ldigits ! n] else fmt_nat (n div 10) @ [ldigits ! (n mod 10)])"

declare fmt_nat.simps [simp del]

definition fmt_d :: "int \<Rightarrow> string" where
  "fmt_d i = (if i < 0 then CHR ''-'' # fmt_nat (nat (- i)) else fmt_nat (nat i))"

definition fmt_x :: "bytes \<Rightarrow> string" where
  "fmt_x bs = concat (map (\<lambda>b. [ldigits ! (unat b div 16), ldigits ! (unat b mod 16)]) bs)"

definition string_bytes :: "string \<Rightarrow> bytes" where
  "string_bytes s = map of_char s"

definition MockGoodEvidence_Height :: "MockGoodEvidence \<Rightarrow> int64" where
  "MockGoodEvidence_Height e = Height' e"

definition MockGoodEvidence_Address :: "MockGoodEvidence \<Rightarrow> bytes" where
  "MockGoodEvidence_Address e = Address' e"

definition MockGoodEvidence_Hash :: "MockGoodEvidence \<Rightarrow> bytes" where
  "MockGoodEvidence_Hash e =
     string_bytes (fmt_d (sint (Height' e)) @ ''-'' @ fmt_x (Address' e))"

definition MockGoodEvidence_Verify ::
  "string \<Rightarrow> PubKey \<Rightarrow> MockGoodEvidence \<Rightarrow> panic + ('b, 'm) go_error option" where
  "MockGoodEvidence_Verify chainID pubKey e = Inr None"

text \<open>
  \<^verbatim>\<open>e2 := ev.(MockGoodEvidence)\<close> is the single-value form of the type assertion: it
  panics unless the dynamic type of \<open>ev\<close> is exactly \<^verbatim>\<open>MockGoodEvidence\<close>.
\<close>

definition MockGoodEvidence_Equal ::
  "MockGoodEvidence \<Rightarrow> ('b, 'm) Evidence \<Rightarrow> panic + bool" where
  "MockGoodEvidence_Equal e ev =
     (case ev of
        Evidence_MockGood e2 \<Rightarrow> Inr (Height' e = Height' e2 \<and> Address' e = Address' e2)
      | _ \<Rightarrow> Inl TypeAssertion)"

definition MockBadEvidence_Verify ::
  "string \<Rightarrow> PubKey \<Rightarrow> MockBadEvidence \<Rightarrow> panic + ('b, 'm) go_error option" where
  "MockBadEvidence_Verify chainID pubKey e = Inr (Some (Errorf ''MockBadEvidence'' []))"

definition MockBadEvidence_Equal ::
  "MockBadEvidence \<Rightarrow> ('b, 'm) Evidence \<Rightarrow> panic + bool" where
  "MockBadEvidence_Equal e ev =
     (case ev of
        Evidence_MockBad e2 \<Rightarrow>
          Inr (Height' (MockGoodEvidence e) = Height' (MockGoodEvidence e2) \<and>
               Address' (MockGoodEvidence e) = Address' (MockGoodEvidence e2))
      | _ \<Rightarrow> Inl TypeAssertion)"

section \<open>The Evidence interface\<close>

text \<open>
  A call through the interface runs the method of the dynamic type.
  \<^verbatim>\<open>MockBadEvidence\<close> has no \<^verbatim>\<open>Hash\<close> of its own: the method of the embedded
  \<^verbatim>\<open>MockGoodEvidence\<close> is promoted.
\<close>

definition Evidence_Hash :: "('b, 'm) externs \<Rightarrow> ('b, 'm) Evidence \<Rightarrow> bytes" where
  "Evidence_Hash ext ev =
     (case ev of
        Evidence_DuplicateVote dve \<Rightarrow> DuplicateVoteEvidence_Hash ext dve
      | Evidence_MockGood e \<Rightarrow> MockGoodEvidence_Hash e
      | Evidence_MockBad e \<Rightarrow> MockGoodEvidence_Hash (MockGoodEvidence e))"

definition Evidence_Verify ::
  "('b, 'm) externs \<Rightarrow> string \<Rightarrow> PubKey \<Rightarrow> ('b, 'm) Evidence
   \<Rightarrow> panic + ('b, 'm) go_error option" where
  "Evidence_Verify ext chainID pubKey ev =
     (case ev of
        Evidence_DuplicateVote dve \<Rightarrow> DuplicateVoteEvidence_Verify ext chainID pubKey dve
      | Evidence_MockGood e \<Rightarrow> MockGoodEvidence_Verify chainID pubKey e
      | Evidence_MockBad e \<Rightarrow> MockBadEvidence_Verify chainID pubKey e)"

section \<open>EvidenceList\<close>

text \<open>
  \<^verbatim>\<open>evl[:k]\<close> is \<open>take k evl\<close> and \<^verbatim>\<open>evl[k:]\<close> is \<open>drop k evl\<close>; here
  \<open>k = (len(evl)+1)/2\<close> is within the bounds of the slice. The nil result of the
  empty list is the empty byte list.
\<close>

function EvidenceList_Hash :: "('b, 'm) externs \<Rightarrow> ('b, 'm) Evidence list \<Rightarrow> bytes" where
  "EvidenceList_Hash ext evl =
     (if length evl = 0 then []
      else if length evl = 1 then Evidence_Hash ext (evl ! 0)
      else (let left = EvidenceList_Hash ext (take ((length evl + 1) div 2) evl);
                right = EvidenceList_Hash ext (drop ((length evl + 1) div 2) evl)
            in SimpleHashFromTwoHashes ext left right))"
  by pat_completeness auto
termination
proof (relation "measure (\<lambda>(ext, evl). length evl)", goal_cases)
  case 1
  show ?case by simp
next
  case (2 ext evl)
  then have "(length evl + 1) div 2 < length evl"
    by arith
  then show ?case by simp
next
  case (3 ext evl)
  then show ?case by simp
qed

declare EvidenceList_Hash.simps [simp del]

section \<open>MockPV\<close>

text \<open>
  \<^verbatim>\<open>crypto.PrivKey\<close> is an interface of another package; the code calls its
  \<^verbatim>\<open>Sign\<close>, which returns the signature or an error.
\<close>

record ('b, 'm) PrivKey =
  Sign :: "bytes \<Rightarrow> ('b, 'm) go_error + bytes"

record ('b, 'm) MockPV =
  privKey :: "('b, 'm) PrivKey"

text \<open>
  The three signing methods take a pointer (not nil), so each returns the value behind
  the pointer after the call, next to its result. \<^verbatim>\<open>Proposal.SignBytes(chainID)\<close> and
  \<^verbatim>\<open>Heartbeat.SignBytes(chainID)\<close> are defined elsewhere and are parameters.
\<close>

definition MockPV_SignVote ::
  "('b, 'm) externs \<Rightarrow> ('b, 'm) MockPV \<Rightarrow> ('b, 'm) Vote_scheme
   \<Rightarrow> ('b, 'm) Vote_scheme \<times> (('b, 'm) go_error + ('b, 'm) SignVoteReply)" where
  "MockPV_SignVote ext pv vote =
     (let signBytes = Vote_SignBytes ext vote in
      case Sign (privKey pv) signBytes of
        Inl err \<Rightarrow> (vote, Inl err)
      | Inr sig \<Rightarrow> (vote, Inr \<lparr>Vote = vote, Signature = sig\<rparr>))"

definition MockPV_SignProposal ::
  "(string \<Rightarrow> 'p Proposal_scheme \<Rightarrow> bytes) \<Rightarrow> ('b, 'm) MockPV \<Rightarrow> string
   \<Rightarrow> 'p Proposal_scheme \<Rightarrow> 'p Proposal_scheme \<times> ('b, 'm) go_error option" where
  "MockPV_SignProposal Proposal_SignBytes pv chainID proposal =
     (let signBytes = Proposal_SignBytes chainID proposal in
      case Sign (privKey pv) signBytes of
        Inl err \<Rightarrow> (proposal, Some err)
      | Inr sig \<Rightarrow> (proposal\<lparr>Proposal.Signature := sig\<rparr>, None))"

definition MockPV_SignHeartbeat ::
  "(string \<Rightarrow> 'h Heartbeat_scheme \<Rightarrow> bytes) \<Rightarrow> ('b, 'm) MockPV \<Rightarrow> string
   \<Rightarrow> 'h Heartbeat_scheme \<Rightarrow> 'h Heartbeat_scheme \<times> ('b, 'm) go_error option" where
  "MockPV_SignHeartbeat Heartbeat_SignBytes pv chainID heartbeat =
     (case Sign (privKey pv) (Heartbeat_SignBytes chainID heartbeat) of
        Inl err \<Rightarrow> (heartbeat, Some err)
      | Inr sig \<Rightarrow> (heartbeat\<lparr>Heartbeat.Signature := sig\<rparr>, None))"

section \<open>Reading the specification\<close>

text \<open>
  The specification describes \<^verbatim>\<open>Verify\<close> as a list of checks made in order, each
  with its own error, the first violated check deciding the result.
\<close>

fun first_violation :: "(bool \<times> 'e) list \<Rightarrow> 'e option" where
  "first_violation [] = None"
| "first_violation ((passed, err) # checks) =
     (if passed then first_violation checks else Some err)"

text \<open>
  Modelled from the spec: \<^verbatim>\<open>merkle.SimpleHashFromTwoHashes\<close> is not among the files at
  hand. The specification says of this two-hash combination that it is deterministic
  and not symmetric: swapping two different child hashes gives another parent hash.
\<close>

definition not_symmetric :: "(bytes \<Rightarrow> bytes \<Rightarrow> bytes) \<Rightarrow> bool" where
  "not_symmetric combine = (\<forall>l r. l \<noteq> r \<longrightarrow> combine l r \<noteq> combine r l)"

section \<open>Example values\<close>

text \<open>
  Concrete values at which the theorems below are exercised. Block identifiers are
  byte strings compared for equality; the extension slot of a vote holds a chain
  identifier, which the example sign-bytes include; a signature is the key byte
  \<open>0xAA\<close> followed by the signed message; the example two-hash combination writes the
  length of the left hash in unary before the two hashes; the content of a proposal or
  a heartbeat is a byte string in the extension slot, signed after the chain identifier.
\<close>

definition example_externs :: "(bytes, string) externs" where
  "example_externs =
     \<lparr>BlockID_Equals = (\<lambda>x y. x = y),
      Vote_SignBytes = (\<lambda>v. string_bytes (Vote.more v) @ [Type v] @ BlockID v),
      aminoHasher_Hash = (\<lambda>d. Address (PubKey d) @
         (case VoteA d of None \<Rightarrow> [] | Some a \<Rightarrow> Signature a) @
         (case VoteB d of None \<Rightarrow> [] | Some b \<Rightarrow> Signature b)),
      SimpleHashFromTwoHashes = (\<lambda>l r. replicate (length l) 1 @ 0 # l @ r)\<rparr>"

definition example_PubKey :: PubKey where
  "example_PubKey = \<lparr>Address = [0xAA], VerifyBytes = (\<lambda>msg sig. sig = 0xAA # msg)\<rparr>"

definition example_PrivKey :: "(bytes, string) PrivKey" where
  "example_PrivKey = \<lparr>Sign = (\<lambda>msg. Inr (0xAA # msg))\<rparr>"

definition example_MockPV :: "(bytes, string) MockPV" where
  "example_MockPV = \<lparr>privKey = example_PrivKey\<rparr>"

definition example_vote :: "int64 \<Rightarrow> bytes \<Rightarrow> (bytes, string) Vote_scheme" where
  "example_vote h blk =
     \<lparr>Height = h, Round = 0, Type = 1, ValidatorAddress = [0xAA],
      ValidatorIndex = 0, BlockID = blk, \<dots> = ''chain-A''\<rparr>"

definition example_reply :: "int64 \<Rightarrow> bytes \<Rightarrow> (bytes, string) SignVoteReply" where
  "example_reply h blk =
     \<lparr>Vote = example_vote h blk,
      Signature = 0xAA # Vote_SignBytes example_externs (example_vote h blk)\<rparr>"

definition example_dve ::
  "int64 \<Rightarrow> bytes \<Rightarrow> int64 \<Rightarrow> bytes \<Rightarrow> (bytes, string) DuplicateVoteEvidence" where
  "example_dve hA blkA hB blkB =
     \<lparr>PubKey = example_PubKey,
      VoteA = Some (example_reply hA blkA),
      VoteB = Some (example_reply hB blkB)\<rparr>"

definition failing_PrivKey :: "(bytes, string) PrivKey" where
  "failing_PrivKey = \<lparr>Sign = (\<lambda>msg. Inl (OtherError ''signing failed''))\<rparr>"

definition failing_MockPV :: "(bytes, string) MockPV" where
  "failing_MockPV = \<lparr>privKey = failing_PrivKey\<rparr>"

definition example_Proposal :: "bytes Proposal_scheme" where
  "example_Proposal = \<lparr>Proposal.Signature = [], \<dots> = [1, 2, 3]\<rparr>"

definition example_Heartbeat :: "bytes Heartbeat_scheme" where
  "example_Heartbeat = \<lparr>Heartbeat.Signature = [9], \<dots> = [4, 5]\<rparr>"

definition example_Proposal_SignBytes :: "string \<Rightarrow> bytes Proposal_scheme \<Rightarrow> bytes" where
  "example_Proposal_SignBytes chainID proposal = string_bytes chainID @ Proposal.more proposal"

definition example_Heartbeat_SignBytes :: "string \<Rightarrow> bytes Heartbeat_scheme \<Rightarrow> bytes" where
  "example_Heartbeat_SignBytes chainID heartbeat =
     string_bytes chainID @ Heartbeat.more heartbeat"

definition example_good :: "int64 \<Rightarrow> MockGoodEvidence" where
  "example_good h = \<lparr>Height' = h, Address' = [0xAB, 0x01]\<rparr>"

definition example_bad :: "int64 \<Rightarrow> MockBadEvidence" where
  "example_bad h = \<lparr>MockGoodEvidence = example_good h\<rparr>"

section \<open>The size ceiling is a tenth of the block size\<close>

lemma sdiv_nonneg_pos: "0 \<le> k \<Longrightarrow> 0 < l \<Longrightarrow> (k::int) sdiv l = k div l"
  by (simp add: signed_divide_int_def sgn_if)

text \<open>
  Claim C7. For every non-negative \<open>blockMaxBytes\<close>, \<open>MaxEvidenceBytesPerBlock\<close>
  returns \<open>blockMaxBytes\<close> divided by 10 (integer division); in particular
  \<open>MaxEvidenceBytesPerBlock 10000 = 1000\<close>.
\<close>

theorem MaxEvidenceBytesPerBlock_tenth:
  assumes "0 \<le> sint blockMaxBytes"
  shows "sint (MaxEvidenceBytesPerBlock blockMaxBytes) = sint blockMaxBytes div 10 \<and>
         MaxEvidenceBytesPerBlock 10000 = 1000"
proof -
  have q: "sint blockMaxBytes sdiv 10 = sint blockMaxBytes div 10"
    using assms by (simp add: sdiv_nonneg_pos)
  have "sint blockMaxBytes < 2 ^ 63"
    using sint_lt [of blockMaxBytes] by simp
  then have hi: "sint blockMaxBytes div 10 < 2 ^ 63"
    using assms by simp
  have lo: "- (2 ^ 63) \<le> sint blockMaxBytes div 10"
    using assms by simp
  have "sint (word_of_int (sint blockMaxBytes div 10) :: go_int) = sint blockMaxBytes div 10"
    using lo hi by (simp add: sint_sbintrunc' signed_take_bit_int_eq_self)
  moreover have "MaxEvidenceBytesPerBlock 10000 = 1000"
    by (simp add: MaxEvidenceBytesPerBlock_def signed_divide_int_def)
  ultimately show ?thesis
    by (simp add: MaxEvidenceBytesPerBlock_def q)
qed

theorem MaxEvidenceBytesPerBlock_tenth_witness:
  "0 \<le> sint (10007 :: go_int) \<and> sint (MaxEvidenceBytesPerBlock 10007) = 1000 \<and>
   MaxEvidenceBytesPerBlock 10000 = 1000"
  using MaxEvidenceBytesPerBlock_tenth [of 10007] by simp

section \<open>The hash of an evidence list\<close>

lemma EvidenceList_Hash_Nil: "EvidenceList_Hash ext [] = []"
  by (simp add: EvidenceList_Hash.simps)

lemma EvidenceList_Hash_single: "EvidenceList_Hash ext [e] = Evidence_Hash ext e"
  by (simp add: EvidenceList_Hash.simps)

lemma EvidenceList_Hash_split:
  "2 \<le> length evl \<Longrightarrow>
   EvidenceList_Hash ext evl =
     SimpleHashFromTwoHashes ext
       (EvidenceList_Hash ext (take ((length evl + 1) div 2) evl))
       (EvidenceList_Hash ext (drop ((length evl + 1) div 2) evl))"
  by (subst EvidenceList_Hash.simps) (auto simp: Let_def)

lemma EvidenceList_Hash_pair:
  "EvidenceList_Hash ext [a, b] =
     SimpleHashFromTwoHashes ext (Evidence_Hash ext a) (Evidence_Hash ext b)"
  by (simp add: EvidenceList_Hash_split EvidenceList_Hash_single)

text \<open>
  Claim C4. The hash of an evidence list is the empty marker (nil) for the empty
  list, the hash of the element for a list of one element, and otherwise the two-hash
  combination of the hash of the first \<open>(n+1)/2\<close> elements with the hash of the
  remaining ones.
\<close>

theorem EvidenceList_Hash_cases:
  "EvidenceList_Hash ext [] = [] \<and>
   EvidenceList_Hash ext [e] = Evidence_Hash ext e \<and>
   (2 \<le> length evl \<longrightarrow>
      EvidenceList_Hash ext evl =
        SimpleHashFromTwoHashes ext
          (EvidenceList_Hash ext (take ((length evl + 1) div 2) evl))
          (EvidenceList_Hash ext (drop ((length evl + 1) div 2) evl)))"
  using EvidenceList_Hash_split [of evl ext]
  by (simp add: EvidenceList_Hash_Nil EvidenceList_Hash_single)

theorem EvidenceList_Hash_cases_witness:
  "2 \<le> length [Evidence_MockGood (example_good 1), Evidence_MockBad (example_bad 2),
                 Evidence_MockGood (example_good 3) :: (bytes, string) Evidence] \<and>
   EvidenceList_Hash example_externs
     [Evidence_MockGood (example_good 1), Evidence_MockBad (example_bad 2),
      Evidence_MockGood (example_good 3)] =
   SimpleHashFromTwoHashes example_externs
     (EvidenceList_Hash example_externs
        [Evidence_MockGood (example_good 1), Evidence_MockBad (example_bad 2)])
     (EvidenceList_Hash example_externs [Evidence_MockGood (example_good 3)])"
  using EvidenceList_Hash_cases [of example_externs "Evidence_MockGood (example_good 1)"
    "[Evidence_MockGood (example_good 1), Evidence_MockBad (example_bad 2),
      Evidence_MockGood (example_good 3)]"]
  by simp

lemma replicate_marker_eq:
  "replicate m (1::byte) @ 0 # xs = replicate n 1 @ 0 # ys \<Longrightarrow> m = n \<and> xs = ys"
proof (induction m arbitrary: n)
  case 0
  then show ?case by (cases n) auto
next
  case (Suc m)
  then show ?case by (cases n) auto
qed

lemma example_combine_not_symmetric:
  "not_symmetric (SimpleHashFromTwoHashes example_externs)"
proof -
  have sel: "SimpleHashFromTwoHashes example_externs =
      (\<lambda>l r. replicate (length l) 1 @ 0 # l @ r)"
    by (simp add: example_externs_def)
  have inj: "l = r"
    if "replicate (length l) (1::byte) @ 0 # l @ r = replicate (length r) 1 @ 0 # r @ l"
    for l r :: bytes
  proof -
    from replicate_marker_eq [OF that]
    have e: "length l = length r" and c: "l @ r = r @ l"
      by blast+
    from c e show ?thesis
      by (metis append_eq_append_conv)
  qed
  show ?thesis
    unfolding not_symmetric_def sel using inj by blast
qed

lemma example_good_hashes:
  "MockGoodEvidence_Hash (example_good 1) = string_bytes ''1-ab01''"
  "MockGoodEvidence_Hash (example_good 2) = string_bytes ''2-ab01''"
  by (simp_all add: MockGoodEvidence_Hash_def example_good_def fmt_d_def fmt_x_def
        fmt_nat.simps ldigits_def)

text \<open>
  Claim C6. For two evidence items with different hashes, the list \<open>[a, b]\<close> and the
  list \<open>[b, a]\<close> have different hashes: the order of the list affects its hash. The
  two-hash combination is a function of another package, of which the specification
  says that it is not symmetric.
\<close>

theorem EvidenceList_Hash_order:
  assumes "not_symmetric (SimpleHashFromTwoHashes ext)"
    and "Evidence_Hash ext a \<noteq> Evidence_Hash ext b"
  shows "EvidenceList_Hash ext [a, b] \<noteq> EvidenceList_Hash ext [b, a]"
  using assms by (simp add: EvidenceList_Hash_pair not_symmetric_def)

theorem EvidenceList_Hash_order_witness:
  "not_symmetric (SimpleHashFromTwoHashes example_externs) \<and>
   Evidence_Hash example_externs (Evidence_MockGood (example_good 1)) \<noteq>
     Evidence_Hash example_externs (Evidence_MockGood (example_good 2)) \<and>
   EvidenceList_Hash example_externs
       [Evidence_MockGood (example_good 1), Evidence_MockGood (example_good 2)] \<noteq>
     EvidenceList_Hash example_externs
       [Evidence_MockGood (example_good 2), Evidence_MockGood (example_good 1)]"
proof -
  have ns: "not_symmetric (SimpleHashFromTwoHashes example_externs)"
    by (rule example_combine_not_symmetric)
  have ne: "Evidence_Hash example_externs (Evidence_MockGood (example_good 1)) \<noteq>
     Evidence_Hash example_externs (Evidence_MockGood (example_good 2) :: (bytes, string) Evidence)"
    by (simp add: Evidence_Hash_def example_good_hashes string_bytes_def)
  show ?thesis
    using ns ne EvidenceList_Hash_order [OF ns ne] by simp
qed

section \<open>Verification of a duplicate vote\<close>

text \<open>
  \<^verbatim>\<open>Verify\<close> on an evidence with both votes present, and on one with a nil vote.
\<close>

lemma Verify_Some:
  "VoteA dve = Some a \<Longrightarrow> VoteB dve = Some b \<Longrightarrow>
   DuplicateVoteEvidence_Verify ext chainID pubKey dve = Inr (
     if Height (Vote a) \<noteq> Height (Vote b) \<or> Round (Vote a) \<noteq> Round (Vote b) \<or>
        Type (Vote a) \<noteq> Type (Vote b)
     then Some (Errorf
       ''DuplicateVoteEvidence Error: H/R/S does not match. Got %v and %v''
       [ArgVote (Some a), ArgVote (Some b)])
     else if ValidatorAddress (Vote a) \<noteq> ValidatorAddress (Vote b)
     then Some (Errorf
       ''DuplicateVoteEvidence Error: Validator addresses do not match. Got %X and %X''
       [ArgBytes (ValidatorAddress (Vote a)), ArgBytes (ValidatorAddress (Vote b))])
     else if ValidatorIndex (Vote a) \<noteq> ValidatorIndex (Vote b)
     then Some (Errorf
       ''DuplicateVoteEvidence Error: Validator indices do not match. Got %d and %d''
       [ArgInt (ValidatorIndex (Vote a)), ArgInt (ValidatorIndex (Vote b))])
     else if BlockID_Equals ext (BlockID (Vote a)) (BlockID (Vote b))
     then Some (Errorf
       ''DuplicateVoteEvidence Error: BlockIDs are the same (%v) - not a real duplicate vote''
       [ArgBlockID (BlockID (Vote a))])
     else if Address pubKey \<noteq> ValidatorAddress (Vote a)
     then Some (Errorf
       ''DuplicateVoteEvidence FAILED SANITY CHECK - address (%X) doesn't match pubkey (%v - %X)''
       [ArgBytes (ValidatorAddress (Vote a)), ArgPubKey pubKey, ArgBytes (Address pubKey)])
     else if \<not> VerifyBytes pubKey (Vote_SignBytes ext (Vote a)) (Signature a)
     then Some (Errorf
       ''DuplicateVoteEvidence Error verifying VoteA: %v'' [ArgErrVoteInvalidSignature])
     else if \<not> VerifyBytes pubKey (Vote_SignBytes ext (Vote b)) (Signature b)
     then Some (Errorf
       ''DuplicateVoteEvidence Error verifying VoteB: %v'' [ArgErrVoteInvalidSignature])
     else None)"
  by (simp add: DuplicateVoteEvidence_Verify_def Let_def)

lemma Verify_nil:
  "VoteA dve = None \<or> VoteB dve = None \<Longrightarrow>
   DuplicateVoteEvidence_Verify ext chainID pubKey dve = Inl NilDereference"
  by (auto simp: DuplicateVoteEvidence_Verify_def split: option.splits)

subsection \<open>The example evidence\<close>

lemma example_dve_VoteA: "VoteA (example_dve hA blkA hB blkB) = Some (example_reply hA blkA)"
  by (simp add: example_dve_def)

lemma example_dve_VoteB: "VoteB (example_dve hA blkA hB blkB) = Some (example_reply hB blkB)"
  by (simp add: example_dve_def)

lemma example_reply_fields:
  "Height (Vote (example_reply h blk)) = h"
  "Round (Vote (example_reply h blk)) = 0"
  "Type (Vote (example_reply h blk)) = 1"
  "ValidatorAddress (Vote (example_reply h blk)) = [0xAA]"
  "ValidatorIndex (Vote (example_reply h blk)) = 0"
  "BlockID (Vote (example_reply h blk)) = blk"
  "Signature (example_reply h blk) = 0xAA # Vote_SignBytes example_externs (Vote (example_reply h blk))"
  by (simp_all add: example_reply_def example_vote_def)

lemma example_externs_BlockID_Equals: "BlockID_Equals example_externs x y = (x = y)"
  by (simp add: example_externs_def)

lemma example_PubKey_fields:
  "Address example_PubKey = [0xAA]"
  "VerifyBytes example_PubKey msg sig = (sig = 0xAA # msg)"
  by (simp_all add: example_PubKey_def)

lemma example_Verify_ok:
  "DuplicateVoteEvidence_Verify example_externs chainID example_PubKey
     (example_dve 5 [1] 5 [2]) = Inr None"
  by (simp add: Verify_Some [OF example_dve_VoteA example_dve_VoteB] example_reply_fields
        example_externs_BlockID_Equals example_PubKey_fields)

lemma example_Verify_same_block:
  "DuplicateVoteEvidence_Verify example_externs chainID example_PubKey
     (example_dve 5 [1] 5 [1]) =
   Inr (Some (Errorf
     ''DuplicateVoteEvidence Error: BlockIDs are the same (%v) - not a real duplicate vote''
     [ArgBlockID [1]]))"
  by (simp add: Verify_Some [OF example_dve_VoteA example_dve_VoteB] example_reply_fields
        example_externs_BlockID_Equals example_PubKey_fields)

lemma example_Verify_heights:
  "DuplicateVoteEvidence_Verify example_externs chainID example_PubKey
     (example_dve 5 [1] 6 [2]) =
   Inr (Some (Errorf
     ''DuplicateVoteEvidence Error: H/R/S does not match. Got %v and %v''
     [ArgVote (Some (example_reply 5 [1])), ArgVote (Some (example_reply 6 [2]))]))"
  by (simp add: Verify_Some [OF example_dve_VoteA example_dve_VoteB] example_reply_fields
        example_externs_BlockID_Equals example_PubKey_fields)

lemma example_SignVote:
  "MockPV_SignVote example_externs example_MockPV (example_vote h blk) =
     (example_vote h blk, Inr (example_reply h blk))"
  by (simp add: MockPV_SignVote_def example_MockPV_def example_PrivKey_def example_reply_def)

lemma example_SignBytes_chain:
  "Vote_SignBytes example_externs (example_vote h blk) = string_bytes ''chain-A'' @ 1 # blk"
  by (simp add: example_externs_def example_vote_def)

subsection \<open>The six checks\<close>

text \<open>
  Claim C1. For every \<^verbatim>\<open>DuplicateVoteEvidence\<close> (with its two votes present), every
  chain identifier and every public key, \<^verbatim>\<open>Verify\<close> makes the checks of the list
  below in this order and returns the error of the first check that is violated:
  (1) equal height, round and type; (2) equal validator addresses; (3) equal validator
  indices; (4) different block identifiers; (5) the address of the public key is
  voteA's validator address; (6) voteA's signature, then voteB's signature, verifies
  over the vote's sign-bytes under the public key. The errors are pairwise distinct,
  and \<^verbatim>\<open>Verify\<close> returns nil exactly when every check passes.
\<close>

theorem Verify_six_checks:
  assumes "VoteA dve = Some a" and "VoteB dve = Some b"
  shows "(let checks =
       [(Height (Vote a) = Height (Vote b) \<and> Round (Vote a) = Round (Vote b) \<and>
           Type (Vote a) = Type (Vote b),
         Errorf ''DuplicateVoteEvidence Error: H/R/S does not match. Got %v and %v''
           [ArgVote (Some a), ArgVote (Some b)]),
        (ValidatorAddress (Vote a) = ValidatorAddress (Vote b),
         Errorf
           ''DuplicateVoteEvidence Error: Validator addresses do not match. Got %X and %X''
           [ArgBytes (ValidatorAddress (Vote a)), ArgBytes (ValidatorAddress (Vote b))]),
        (ValidatorIndex (Vote a) = ValidatorIndex (Vote b),
         Errorf
           ''DuplicateVoteEvidence Error: Validator indices do not match. Got %d and %d''
           [ArgInt (ValidatorIndex (Vote a)), ArgInt (ValidatorIndex (Vote b))]),
        (\<not> BlockID_Equals ext (BlockID (Vote a)) (BlockID (Vote b)),
         Errorf
           ''DuplicateVoteEvidence Error: BlockIDs are the same (%v) - not a real duplicate vote''
           [ArgBlockID (BlockID (Vote a))]),
        (Address pubKey = ValidatorAddress (Vote a),
         Errorf
           ''DuplicateVoteEvidence FAILED SANITY CHECK - address (%X) doesn't match pubkey (%v - %X)''
           [ArgBytes (ValidatorAddress (Vote a)), ArgPubKey pubKey, ArgBytes (Address pubKey)]),
        (VerifyBytes pubKey (Vote_SignBytes ext (Vote a)) (Signature a),
         Errorf ''DuplicateVoteEvidence Error verifying VoteA: %v''
           [ArgErrVoteInvalidSignature]),
        (VerifyBytes pubKey (Vote_SignBytes ext (Vote b)) (Signature b),
         Errorf ''DuplicateVoteEvidence Error verifying VoteB: %v''
           [ArgErrVoteInvalidSignature])]
     in DuplicateVoteEvidence_Verify ext chainID pubKey dve = Inr (first_violation checks) \<and>
        distinct (map snd checks) \<and>
        ((DuplicateVoteEvidence_Verify ext chainID pubKey dve = Inr None) = list_all fst checks))"
  unfolding Let_def Verify_Some [OF assms]
  by (simp del: not_None_eq) blast


theorem Verify_six_checks_witness:
  "VoteA (example_dve 5 [1] 5 [2]) = Some (example_reply 5 [1]) \<and>
   VoteB (example_dve 5 [1] 5 [2]) = Some (example_reply 5 [2]) \<and>
   DuplicateVoteEvidence_Verify example_externs ''chain-A'' example_PubKey
     (example_dve 5 [1] 5 [2]) =
   Inr None"
  using Verify_six_checks [where dve = "example_dve 5 [1] 5 [2]" and ext = example_externs
    and chainID = "''chain-A''" and pubKey = example_PubKey,
    OF example_dve_VoteA example_dve_VoteB]
  by (simp add: example_dve_VoteA example_dve_VoteB example_reply_fields
        example_externs_BlockID_Equals example_PubKey_fields Let_def)


subsection \<open>The chain identifier\<close>

text \<open>
  Claim C2 requires that \<^verbatim>\<open>Verify\<close> fails with a chain identifier other than the one
  the two votes were signed for, the signature check being bound to the chain
  identifier argument. The code does not meet it. \<^verbatim>\<open>Verify\<close> takes \<open>chainID\<close> and
  never reads it: the signatures are checked over what \<^verbatim>\<open>Vote.SignBytes()\<close> returns,
  called without argument, whereas \<^verbatim>\<open>SignProposal\<close> and \<^verbatim>\<open>SignHeartbeat\<close> pass their
  \<open>chainID\<close> to \<^verbatim>\<open>SignBytes\<close>. What the code does is this: the result of \<^verbatim>\<open>Verify\<close>
  is the same for every chain identifier, so an evidence accepted for one chain is
  accepted for every other one; when it is accepted, both votes are present and each
  signature verifies under the public key over the sign-bytes of its vote.
\<close>

theorem Verify_ignores_chainID:
  "DuplicateVoteEvidence_Verify ext chainID' pubKey dve =
     DuplicateVoteEvidence_Verify ext chainID pubKey dve \<and>
   (DuplicateVoteEvidence_Verify ext chainID pubKey dve = Inr None \<longrightarrow>
      (\<exists>a b. VoteA dve = Some a \<and> VoteB dve = Some b \<and>
         VerifyBytes pubKey (Vote_SignBytes ext (Vote a)) (Signature a) \<and>
         VerifyBytes pubKey (Vote_SignBytes ext (Vote b)) (Signature b)))"
proof (cases "VoteA dve")
  case None
  then show ?thesis by (simp add: Verify_nil)
next
  case A: (Some a)
  show ?thesis
  proof (cases "VoteB dve")
    case None
    then show ?thesis by (simp add: Verify_nil)
  next
    case B: (Some b)
    show ?thesis
      unfolding Verify_Some [OF A B]
      by (simp add: A B split: if_splits)
  qed
qed

text \<open>
  The failing input: two votes for the blocks \<open>[1]\<close> and \<open>[2]\<close>, signed by
  \<^verbatim>\<open>MockPV.SignVote\<close>, whose sign-bytes hold the chain identifier \<open>chain-A\<close>.
  \<^verbatim>\<open>Verify\<close> returns nil with \<open>chain-A\<close>, and returns nil with \<open>chain-B\<close> as well.
\<close>

theorem Verify_ignores_chainID_witness:
  "MockPV_SignVote example_externs example_MockPV (example_vote 5 [1]) =
     (example_vote 5 [1], Inr (example_reply 5 [1])) \<and>
   MockPV_SignVote example_externs example_MockPV (example_vote 5 [2]) =
     (example_vote 5 [2], Inr (example_reply 5 [2])) \<and>
   Vote_SignBytes example_externs (example_vote 5 [1]) = string_bytes ''chain-A'' @ [1, 1] \<and>
   Vote_SignBytes example_externs (example_vote 5 [2]) = string_bytes ''chain-A'' @ [1, 2] \<and>
   DuplicateVoteEvidence_Verify example_externs ''chain-A'' example_PubKey
     (example_dve 5 [1] 5 [2]) = Inr None \<and>
   VerifyBytes example_PubKey (Vote_SignBytes example_externs (Vote (example_reply 5 [1])))
     (Signature (example_reply 5 [1])) \<and>
   VerifyBytes example_PubKey (Vote_SignBytes example_externs (Vote (example_reply 5 [2])))
     (Signature (example_reply 5 [2])) \<and>
   ''chain-B'' \<noteq> ''chain-A'' \<and>
   DuplicateVoteEvidence_Verify example_externs ''chain-B'' example_PubKey
     (example_dve 5 [1] 5 [2]) = Inr None"
proof -
  have ok: "DuplicateVoteEvidence_Verify example_externs ''chain-A'' example_PubKey
     (example_dve 5 [1] 5 [2]) = Inr None"
    by (rule example_Verify_ok)
  have other: "DuplicateVoteEvidence_Verify example_externs ''chain-B'' example_PubKey
     (example_dve 5 [1] 5 [2]) = Inr None"
    using Verify_ignores_chainID [of example_externs "''chain-B''" example_PubKey
      "example_dve 5 [1] 5 [2]" "''chain-A''"]
    by (simp only: ok)
  show ?thesis
    using ok other
    by (simp add: example_SignVote example_SignBytes_chain example_reply_fields
          example_PubKey_fields)
qed

subsection \<open>The error of a failed verification\<close>

text \<open>
  Claim C3 says that the error of a failed verification is the wrapper
  \<^verbatim>\<open>ErrEvidenceInvalid\<close>, carrying the evidence. It is not: two votes for the same block
  and a \<^verbatim>\<open>MockBadEvidence\<close> both fail with a bare \<^verbatim>\<open>fmt.Errorf\<close> error.
\<close>

theorem Verify_error_wrapper_counterexample:
  "Evidence_Verify example_externs ''chain-A'' example_PubKey
     (Evidence_DuplicateVote (example_dve 5 [1] 5 [1])) =
   Inr (Some (Errorf
     ''DuplicateVoteEvidence Error: BlockIDs are the same (%v) - not a real duplicate vote''
     [ArgBlockID [1]])) \<and>
   \<not> is_ErrEvidenceInvalid (Errorf
     ''DuplicateVoteEvidence Error: BlockIDs are the same (%v) - not a real duplicate vote''
     [ArgBlockID [1]] :: (bytes, string) go_error) \<and>
   Evidence_Verify example_externs ''chain-A'' example_PubKey
     (Evidence_MockBad (example_bad 5)) = Inr (Some (Errorf ''MockBadEvidence'' [])) \<and>
   \<not> is_ErrEvidenceInvalid (Errorf ''MockBadEvidence'' [] :: (bytes, string) go_error)"
  by (simp add: Evidence_Verify_def MockBadEvidence_Verify_def example_Verify_same_block)

text \<open>
  Claim C3, amended. For every evidence whose verification fails, \<^verbatim>\<open>Verify\<close> returns
  the bare cause, an error built by \<^verbatim>\<open>fmt.Errorf\<close>, never the wrapper; the wrapper is
  built apart by \<^verbatim>\<open>NewEvidenceInvalidErr\<close>, and it carries the evidence and the cause
  it is given.
\<close>

theorem Verify_returns_bare_error:
  assumes "Evidence_Verify ext chainID pubKey ev = Inr (Some err)"
  shows "is_Errorf err \<and> \<not> is_ErrEvidenceInvalid err \<and>
         Evidence (NewEvidenceInvalidErr ev err) = ev \<and>
         ErrorValue (NewEvidenceInvalidErr ev err) = err"
proof -
  have "is_Errorf err"
  proof (cases ev)
    case (Evidence_DuplicateVote dve)
    with assms have v: "DuplicateVoteEvidence_Verify ext chainID pubKey dve = Inr (Some err)"
      by (simp add: Evidence_Verify_def)
    then obtain a b where A: "VoteA dve = Some a" and B: "VoteB dve = Some b"
      by (cases "VoteA dve"; cases "VoteB dve") (simp_all add: Verify_nil)
    from v show ?thesis
      unfolding Verify_Some [OF A B] by (auto split: if_splits)
  next
    case (Evidence_MockGood e)
    with assms show ?thesis
      by (simp add: Evidence_Verify_def MockGoodEvidence_Verify_def)
  next
    case (Evidence_MockBad e)
    with assms show ?thesis
      by (auto simp: Evidence_Verify_def MockBadEvidence_Verify_def)
  qed
  then show ?thesis
    by (cases err) (simp_all add: NewEvidenceInvalidErr_def)
qed

theorem Verify_returns_bare_error_witness:
  "Evidence_Verify example_externs ''chain-A'' example_PubKey
     (Evidence_MockBad (example_bad 5)) = Inr (Some (Errorf ''MockBadEvidence'' [])) \<and>
   is_Errorf (Errorf ''MockBadEvidence'' [] :: (bytes, string) go_error) \<and>
   Evidence (NewEvidenceInvalidErr (Evidence_MockBad (example_bad 5))
     (Errorf ''MockBadEvidence'' [] :: (bytes, string) go_error)) =
     Evidence_MockBad (example_bad 5)"
proof -
  have v: "Evidence_Verify example_externs ''chain-A'' example_PubKey
     (Evidence_MockBad (example_bad 5)) = Inr (Some (Errorf ''MockBadEvidence'' []))"
    by (simp add: Evidence_Verify_def MockBadEvidence_Verify_def)
  show ?thesis
    using v Verify_returns_bare_error [OF v] by simp
qed

section \<open>Height and address of a duplicate vote\<close>

text \<open>
  Claim C10. For every \<^verbatim>\<open>DuplicateVoteEvidence\<close> (with voteA present), \<^verbatim>\<open>Height()\<close>
  returns voteA's height, whatever voteB is, and \<^verbatim>\<open>Address()\<close> returns the address
  of the stored public key, whatever the votes are; no verification is involved. In the
  example the two votes have the heights 5 and 6, \<^verbatim>\<open>Verify\<close> fails, and \<^verbatim>\<open>Height()\<close>
  is 5.
\<close>

theorem DuplicateVoteEvidence_Height_Address:
  assumes "VoteA dve = Some a"
  shows "DuplicateVoteEvidence_Height dve = Inr (Height (Vote a)) \<and>
         DuplicateVoteEvidence_Height (dve\<lparr>VoteB := vb\<rparr>) = Inr (Height (Vote a)) \<and>
         DuplicateVoteEvidence_Address dve = Address (PubKey dve) \<and>
         DuplicateVoteEvidence_Address (dve\<lparr>VoteA := va, VoteB := vb\<rparr>) = Address (PubKey dve)"
  using assms by (simp add: DuplicateVoteEvidence_Height_def DuplicateVoteEvidence_Address_def)

theorem DuplicateVoteEvidence_Height_Address_witness:
  "VoteA (example_dve 5 [1] 6 [2]) = Some (example_reply 5 [1]) \<and>
   VoteB (example_dve 5 [1] 6 [2]) = Some (example_reply 6 [2]) \<and>
   Height (Vote (example_reply 6 [2])) = 6 \<and>
   DuplicateVoteEvidence_Verify example_externs ''chain-A'' example_PubKey
     (example_dve 5 [1] 6 [2]) \<noteq> Inr None \<and>
   DuplicateVoteEvidence_Height (example_dve 5 [1] 6 [2]) = Inr 5 \<and>
   DuplicateVoteEvidence_Height ((example_dve 5 [1] 6 [2])\<lparr>VoteB := None\<rparr>) = Inr 5 \<and>
   DuplicateVoteEvidence_Address (example_dve 5 [1] 6 [2]) = [0xAA]"
proof -
  have p: "PubKey (example_dve 5 [1] 6 [2]) = example_PubKey"
    by (simp add: example_dve_def)
  show ?thesis
    using DuplicateVoteEvidence_Height_Address
      [OF example_dve_VoteA, of 5 "[1]" 6 "[2]" None None]
    by (simp add: example_dve_VoteA example_dve_VoteB example_reply_fields
          example_Verify_heights p example_PubKey_fields)
qed

section \<open>Equality of evidence\<close>

lemma example_dve_hashes:
  "aminoHasher_Hash example_externs (example_dve 5 [1] 5 [2]) =
     [170, 170, 99, 104, 97, 105, 110, 45, 65, 1, 1, 170, 99, 104, 97, 105, 110, 45, 65, 1, 2]"
  "aminoHasher_Hash example_externs (example_dve 5 [2] 5 [1]) =
     [170, 170, 99, 104, 97, 105, 110, 45, 65, 1, 2, 170, 99, 104, 97, 105, 110, 45, 65, 1, 1]"
  by (simp_all add: example_externs_def example_dve_def example_reply_def example_vote_def
        example_PubKey_def string_bytes_def)

text \<open>
  Claim C5. For every \<^verbatim>\<open>DuplicateVoteEvidence\<close> \<open>dve\<close> and every evidence \<open>ev\<close>,
  \<open>dve.Equal(ev)\<close> is false when the concrete type of \<open>ev\<close> is not
  \<^verbatim>\<open>*DuplicateVoteEvidence\<close>, and otherwise it is true exactly when \<open>dve.Hash()\<close> and
  \<open>ev.Hash()\<close> are equal byte strings.
\<close>

theorem DuplicateVoteEvidence_Equal_hash:
  "(\<not> is_DuplicateVoteEvidence ev \<longrightarrow> DuplicateVoteEvidence_Equal ext dve ev = False) \<and>
   (is_DuplicateVoteEvidence ev \<longrightarrow>
      DuplicateVoteEvidence_Equal ext dve ev =
        (DuplicateVoteEvidence_Hash ext dve = Evidence_Hash ext ev))"
  by (cases ev)
     (simp_all add: DuplicateVoteEvidence_Equal_def DuplicateVoteEvidence_Hash_def
        Evidence_Hash_def)

theorem DuplicateVoteEvidence_Equal_hash_witness:
  "\<not> is_DuplicateVoteEvidence (Evidence_MockGood (example_good 5) :: (bytes, string) Evidence) \<and>
   DuplicateVoteEvidence_Equal example_externs (example_dve 5 [1] 5 [2])
     (Evidence_MockGood (example_good 5)) = False \<and>
   is_DuplicateVoteEvidence (Evidence_DuplicateVote (example_dve 5 [1] 5 [2])) \<and>
   DuplicateVoteEvidence_Equal example_externs (example_dve 5 [1] 5 [2])
     (Evidence_DuplicateVote (example_dve 5 [1] 5 [2])) = True \<and>
   DuplicateVoteEvidence_Equal example_externs (example_dve 5 [1] 5 [2])
     (Evidence_DuplicateVote (example_dve 5 [2] 5 [1])) = False"
  using
    DuplicateVoteEvidence_Equal_hash [of "Evidence_MockGood (example_good 5)"
      example_externs "example_dve 5 [1] 5 [2]"]
    DuplicateVoteEvidence_Equal_hash [of "Evidence_DuplicateVote (example_dve 5 [1] 5 [2])"
      example_externs "example_dve 5 [1] 5 [2]"]
    DuplicateVoteEvidence_Equal_hash [of "Evidence_DuplicateVote (example_dve 5 [2] 5 [1])"
      example_externs "example_dve 5 [1] 5 [2]"]
  by (simp add: Evidence_Hash_def DuplicateVoteEvidence_Hash_def example_dve_hashes)

text \<open>
  Claim C9. \<^verbatim>\<open>MockGoodEvidence.Equal\<close> and \<^verbatim>\<open>MockBadEvidence.Equal\<close> return a result
  only when the argument has the same concrete type as the receiver; with an
  evidence of any other concrete type the unchecked type assertion panics, and no
  boolean is returned.
\<close>

theorem Mock_Equal_type_assertion:
  "(\<not> is_MockGoodEvidence ev \<longrightarrow> MockGoodEvidence_Equal g ev = Inl TypeAssertion) \<and>
   (\<not> is_MockBadEvidence ev \<longrightarrow> MockBadEvidence_Equal b ev = Inl TypeAssertion) \<and>
   ((\<exists>r. MockGoodEvidence_Equal g ev = Inr r) = is_MockGoodEvidence ev) \<and>
   ((\<exists>r. MockBadEvidence_Equal b ev = Inr r) = is_MockBadEvidence ev)"
  by (cases ev) (simp_all add: MockGoodEvidence_Equal_def MockBadEvidence_Equal_def)

theorem Mock_Equal_type_assertion_witness:
  "\<not> is_MockGoodEvidence (Evidence_MockBad (example_bad 5) :: (bytes, string) Evidence) \<and>
   MockGoodEvidence_Equal (example_good 5)
     (Evidence_MockBad (example_bad 5) :: (bytes, string) Evidence) = Inl TypeAssertion \<and>
   \<not> is_MockBadEvidence (Evidence_DuplicateVote (example_dve 5 [1] 5 [2])) \<and>
   MockBadEvidence_Equal (example_bad 5)
     (Evidence_DuplicateVote (example_dve 5 [1] 5 [2])) = Inl TypeAssertion \<and>
   MockGoodEvidence_Equal (example_good 5)
     (Evidence_MockGood (example_good 5) :: (bytes, string) Evidence) = Inr True"
  using
    Mock_Equal_type_assertion [of "Evidence_MockBad (example_bad 5) :: (bytes, string) Evidence"
      "example_good 5" "example_bad 5"]
    Mock_Equal_type_assertion [of "Evidence_DuplicateVote (example_dve 5 [1] 5 [2])"
      "example_good 5" "example_bad 5"]
  by (simp add: MockGoodEvidence_Equal_def)

section \<open>Signing with the mock validator\<close>

lemma example_Sign:
  "Sign (privKey example_MockPV) msg = Inr (0xAA # msg)"
  "Sign (privKey failing_MockPV) msg = Inl (OtherError ''signing failed'')"
  by (simp_all add: example_MockPV_def example_PrivKey_def failing_MockPV_def
        failing_PrivKey_def)

text \<open>
  Claim C8. \<^verbatim>\<open>SignVote\<close> leaves the vote behind its argument unchanged and, when the
  key signs, returns a reply that holds a copy of the vote and the signature (the
  error of the key otherwise). \<^verbatim>\<open>SignProposal\<close> and \<^verbatim>\<open>SignHeartbeat\<close> change only the
  \<^verbatim>\<open>Signature\<close> field of their argument: every other field keeps its value, the
  signature is stored when the key signs, and nothing changes when it fails.
\<close>

theorem MockPV_sign_frame:
  "fst (MockPV_SignVote ext pv vote) = vote \<and>
   (Sign (privKey pv) (Vote_SignBytes ext vote) = Inr sigV \<longrightarrow>
      snd (MockPV_SignVote ext pv vote) = Inr \<lparr>Vote = vote, Signature = sigV\<rparr>) \<and>
   (Sign (privKey pv) (Vote_SignBytes ext vote) = Inl errV \<longrightarrow>
      snd (MockPV_SignVote ext pv vote) = Inl errV) \<and>
   Proposal.more (fst (MockPV_SignProposal psb pv chainID proposal)) = Proposal.more proposal \<and>
   (Sign (privKey pv) (psb chainID proposal) = Inr sigP \<longrightarrow>
      MockPV_SignProposal psb pv chainID proposal =
        (proposal\<lparr>Proposal.Signature := sigP\<rparr>, None)) \<and>
   (Sign (privKey pv) (psb chainID proposal) = Inl errP \<longrightarrow>
      MockPV_SignProposal psb pv chainID proposal = (proposal, Some errP)) \<and>
   Heartbeat.more (fst (MockPV_SignHeartbeat hsb pv chainID heartbeat)) =
     Heartbeat.more heartbeat \<and>
   (Sign (privKey pv) (hsb chainID heartbeat) = Inr sigH \<longrightarrow>
      MockPV_SignHeartbeat hsb pv chainID heartbeat =
        (heartbeat\<lparr>Heartbeat.Signature := sigH\<rparr>, None)) \<and>
   (Sign (privKey pv) (hsb chainID heartbeat) = Inl errH \<longrightarrow>
      MockPV_SignHeartbeat hsb pv chainID heartbeat = (heartbeat, Some errH))"
  by (simp add: MockPV_SignVote_def MockPV_SignProposal_def MockPV_SignHeartbeat_def Let_def
        split: sum.split)

theorem MockPV_sign_frame_witness:
  "MockPV_SignVote example_externs example_MockPV (example_vote 5 [1]) =
     (example_vote 5 [1],
      Inr \<lparr>Vote = example_vote 5 [1],
           Signature = 0xAA # Vote_SignBytes example_externs (example_vote 5 [1])\<rparr>) \<and>
   MockPV_SignProposal example_Proposal_SignBytes example_MockPV ''chain-A'' example_Proposal =
     (example_Proposal\<lparr>Proposal.Signature :=
        0xAA # example_Proposal_SignBytes ''chain-A'' example_Proposal\<rparr>, None) \<and>
   MockPV_SignHeartbeat example_Heartbeat_SignBytes example_MockPV ''chain-A'' example_Heartbeat =
     (example_Heartbeat\<lparr>Heartbeat.Signature :=
        0xAA # example_Heartbeat_SignBytes ''chain-A'' example_Heartbeat\<rparr>, None) \<and>
   MockPV_SignVote example_externs failing_MockPV (example_vote 5 [1]) =
     (example_vote 5 [1], Inl (OtherError ''signing failed'')) \<and>
   MockPV_SignProposal example_Proposal_SignBytes failing_MockPV ''chain-A'' example_Proposal =
     (example_Proposal, Some (OtherError ''signing failed'')) \<and>
   MockPV_SignHeartbeat example_Heartbeat_SignBytes failing_MockPV ''chain-A'' example_Heartbeat =
     (example_Heartbeat, Some (OtherError ''signing failed''))"
  using
    MockPV_sign_frame [where ext = example_externs and pv = example_MockPV
      and vote = "example_vote 5 [1]"
      and sigV = "0xAA # Vote_SignBytes example_externs (example_vote 5 [1])"
      and psb = example_Proposal_SignBytes and chainID = "''chain-A''"
      and proposal = example_Proposal
      and sigP = "0xAA # example_Proposal_SignBytes ''chain-A'' example_Proposal"
      and hsb = example_Heartbeat_SignBytes and heartbeat = example_Heartbeat
      and sigH = "0xAA # example_Heartbeat_SignBytes ''chain-A'' example_Heartbeat"]
    MockPV_sign_frame [where ext = example_externs and pv = failing_MockPV
      and vote = "example_vote 5 [1]" and errV = "OtherError ''signing failed''"
      and psb = example_Proposal_SignBytes and chainID = "''chain-A''"
      and proposal = example_Proposal and errP = "OtherError ''signing failed''"
      and hsb = example_Heartbeat_SignBytes and heartbeat = example_Heartbeat
      and errH = "OtherError ''signing failed''"]
  by (simp add: example_Sign prod_eq_iff)

end
